theory Spec2Isabelle
  imports Complex_Main
begin

section \<open>Values exchanged with the user interface and the classifier\<close>

text \<open>
  The callback of \<^verbatim>\<open>Uber_Ride_Cancellation_App.py\<close> receives the click counter of the
  button and the sixteen widget values as JSON scalars. A cleared dropdown or a cleared
  numeric field arrives as \<^verbatim>\<open>None\<close>, so the value type has it.
  A float is modelled by the real number it denotes: every finite double is a rational,
  comparison of finite doubles is exact, and the constant \<^verbatim>\<open>0.5\<close> is a double.
  Arithmetic on floats rounds its exact result to the nearest double (\<open>fl\<close> below).
  NaN, the infinities and overflow are not modelled.
\<close>

datatype py_val = PyNone | PyBool bool | PyInt int | PyFloat real | PyStr string

text \<open>Python's truth test, as used by \<^verbatim>\<open>not n_clicks\<close>.\<close>

fun py_truthy :: "py_val \<Rightarrow> bool" where
  "py_truthy PyNone = False"
| "py_truthy (PyBool b) = b"
| "py_truthy (PyInt i) = (i \<noteq> 0)"
| "py_truthy (PyFloat x) = (x \<noteq> 0)"
| "py_truthy (PyStr s) = (s \<noteq> [])"

text \<open>
  What a Python call can raise. \<^verbatim>\<open>except Exception\<close> catches the instances of
  class \<^verbatim>\<open>Exception\<close> (every ordinary error: ValueError, KeyError, IndexError,
  AttributeError, ...); the argument is \<^verbatim>\<open>str(e)\<close>. The other subclasses of
  \<^verbatim>\<open>BaseException\<close> (SystemExit, KeyboardInterrupt, GeneratorExit) are requests to leave,
  not errors, and pass through such a handler.
\<close>

datatype py_exc = Exception string | ExitRequest string

text \<open>
  \<^verbatim>\<open>pd.DataFrame([{...}])\<close>: a list of rows, each row a dict literal, kept as an
  association list in the order the source writes the keys.
\<close>

type_synonym row = "(string \<times> py_val) list"
type_synonym dataframe = "row list"

text \<open>
  The unpickled pipeline is opaque. Its one method the callback uses,
  \<^verbatim>\<open>predict_proba\<close>, takes a frame and returns one row of class probabilities per
  frame row (a two-dimensional array), or raises.
\<close>

type_synonym classifier = "dataframe \<Rightarrow> py_exc + real list list"

text \<open>The five \<^verbatim>\<open>Output\<close>s of the callback, in the decorator's order.\<close>

type_synonym outputs = "string \<times> string \<times> py_val \<times> string \<times> string"

definition prediction_text :: "outputs \<Rightarrow> string" where
  "prediction_text out = (case out of (t, c, v, k, m) \<Rightarrow> t)"

definition prediction_class :: "outputs \<Rightarrow> string" where
  "prediction_class out = (case out of (t, c, v, k, m) \<Rightarrow> c)"

definition prob_bar_value :: "outputs \<Rightarrow> py_val" where
  "prob_bar_value out = (case out of (t, c, v, k, m) \<Rightarrow> v)"

definition prob_bar_color :: "outputs \<Rightarrow> string" where
  "prob_bar_color out = (case out of (t, c, v, k, m) \<Rightarrow> k)"

definition prob_text :: "outputs \<Rightarrow> string" where
  "prob_text out = (case out of (t, c, v, k, m) \<Rightarrow> m)"

section \<open>Built-ins the callback relies on\<close>

definition digit_char :: "nat \<Rightarrow> char" where
  "digit_char d = ''0123456789'' ! (d mod 10)"

fun str_nat :: "nat \<Rightarrow> string" where
  "str_nat n = (if n < 10 then [digit_char n] else str_nat (n div 10) @ [digit_char (n mod 10)])"

declare str_nat.simps [simp del]

text \<open>
  Indexing an array with a constant non-negative index. Out of range, numpy raises
  IndexError (an \<^verbatim>\<open>Exception\<close>) with this message.
\<close>

definition np_index :: "'a list \<Rightarrow> nat \<Rightarrow> py_exc + 'a" where
  "np_index xs i =
     (if i < length xs then Inr (xs ! i)
      else Inl (Exception (''index '' @ str_nat i @ '' is out of bounds for axis 0 with size ''
                  @ str_nat (length xs))))"

text \<open>Rounding a real number to the nearest integer, ties to the even one.\<close>

definition round_half_even :: "real \<Rightarrow> int" where
  "round_half_even y =
     (let f = \<lfloor>y\<rfloor>; d = y - of_int f
      in if d < 1 / 2 then f else if 1 / 2 < d then f + 1 else if even f then f else f + 1)"

text \<open>
  IEEE 754 binary64. \<open>exponent x\<close> is the binary exponent of a positive \<open>x\<close>, the
  \<open>e\<close> with \<open>2^e \<le> x < 2^(e+1)\<close>. \<open>fl x\<close> is the double nearest to \<open>x\<close>, ties to
  the even significand: \<open>x\<close> is rounded to a whole multiple of \<open>2^(e-52)\<close>, and of
  \<open>2^-1074\<close> in the subnormal range. An operation on doubles returns \<open>fl\<close> of its exact
  result.
\<close>

definition pow2 :: "int \<Rightarrow> real" where
  "pow2 e = (if 0 \<le> e then 2 ^ nat e else 1 / 2 ^ nat (- e))"

fun ilog2 :: "nat \<Rightarrow> nat" where
  "ilog2 n = (if n < 2 then 0 else Suc (ilog2 (n div 2)))"

declare ilog2.simps [simp del]

definition clog2 :: "nat \<Rightarrow> nat" where
  "clog2 n = (if n \<le> 1 then 0 else Suc (ilog2 (n - 1)))"

definition exponent :: "real \<Rightarrow> int" where
  "exponent x =
     (if 1 \<le> x then int (ilog2 (nat \<lfloor>x\<rfloor>)) else - int (clog2 (nat \<lceil>1 / x\<rceil>)))"

definition fl :: "real \<Rightarrow> real" where
  "fl x =
     (if x = 0 then 0
      else let e = max (exponent \<bar>x\<bar> - 52) (- 1074)
           in of_int (round_half_even (x / pow2 e)) * pow2 e)"

text \<open>\<^verbatim>\<open>rint\<close>: the nearest whole number, ties to even, as a double.\<close>

definition rint :: "real \<Rightarrow> real" where
  "rint x = of_int (round_half_even x)"

text \<open>
  \<^verbatim>\<open>round(x, ndigits)\<close> on a numpy double, for a non-negative number of digits. The
  probability is an element of the array \<^verbatim>\<open>predict_proba\<close> returns, a numpy
  \<^verbatim>\<open>float64\<close>, and so is its product with 100; \<^verbatim>\<open>round\<close> on it is numpy's: multiply
  by \<open>10^ndigits\<close>, \<^verbatim>\<open>rint\<close>, divide by \<open>10^ndigits\<close>, each step in doubles.
\<close>

definition py_round :: "real \<Rightarrow> nat \<Rightarrow> real" where
  "py_round x ndigits = fl (rint (fl (x * 10 ^ ndigits)) / 10 ^ ndigits)"

text \<open>
  \<^verbatim>\<open>str\<close> of a double, as the f-string applies it, for the doubles \<^verbatim>\<open>round(_, 2)\<close>
  gives on a percentage: the double nearest to a non-negative multiple of 0.01 below
  \<open>10^16\<close>. Python prints the shortest decimal that reads back as the same double, which
  is that multiple, with at least one digit after the point: \<^verbatim>\<open>73.0\<close>, \<^verbatim>\<open>45.6\<close>,
  \<^verbatim>\<open>45.67\<close>. Negative values and the exponent notation of large ones are outside this
  definition.
\<close>

definition py_str_float :: "real \<Rightarrow> string" where
  "py_str_float x =
     (let c = nat (round_half_even (x * 100)); d1 = c mod 100 div 10; d2 = c mod 10
      in str_nat (c div 100) @ ''.'' @ [digit_char d1] @ (if d2 = 0 then [] else [digit_char d2]))"

text \<open>
  The number a decimal text of digits with one point denotes. \<^verbatim>\<open>float(s)\<close> is \<open>fl\<close> of
  it.
\<close>

definition digit_val :: "char \<Rightarrow> nat" where
  "digit_val c = of_char c - 48"

definition read_nat :: "string \<Rightarrow> nat" where
  "read_nat s = foldl (\<lambda>a c. 10 * a + digit_val c) 0 s"

definition read_decimal :: "string \<Rightarrow> real" where
  "read_decimal s =
     (let ip = takeWhile (\<lambda>c. c \<noteq> CHR ''.'') s; fp = drop (Suc (length ip)) s
      in real (read_nat ip) + real (read_nat fp) / 10 ^ length fp)"

section \<open>Start-up\<close>

text \<open>
  Lines 11 to 16: the global \<^verbatim>\<open>pipeline\<close> is the unpickled object when the file
  exists and \<^verbatim>\<open>None\<close> otherwise. \<open>file_exists\<close> is the answer of
  \<^verbatim>\<open>os.path.exists\<close> and \<open>loaded\<close> what \<^verbatim>\<open>joblib.load\<close> does when it is called;
  an exception of \<^verbatim>\<open>joblib.load\<close> is not handled and ends the import of the module.
\<close>

definition load_pipeline :: "bool \<Rightarrow> py_exc + classifier \<Rightarrow> py_exc + classifier option" where
  "load_pipeline file_exists loaded =
     (if file_exists then (case loaded of Inl e \<Rightarrow> Inl e | Inr m \<Rightarrow> Inr (Some m))
      else Inr None)"

section \<open>The callback\<close>

text \<open>Lines 174 to 191: the one-row frame built from the widget values.\<close>

definition input_data ::
  "py_val \<Rightarrow> py_val \<Rightarrow> py_val \<Rightarrow> py_val \<Rightarrow> py_val \<Rightarrow> py_val \<Rightarrow> py_val \<Rightarrow> py_val \<Rightarrow>
   py_val \<Rightarrow> py_val \<Rightarrow> py_val \<Rightarrow> py_val \<Rightarrow> py_val \<Rightarrow> py_val \<Rightarrow> py_val \<Rightarrow> py_val \<Rightarrow> dataframe" where
  "input_data v_type weather pickup drop' patience rating arrival dist' cost temp hour hum
              prec day month dom' =
     [[(''vehicle_arrival_time'', arrival),
       (''distance'', dist'),
       (''ride_cost'', cost),
       (''temperature'', temp),
       (''humidity'', hum),
       (''precipitation_mm'', prec),
       (''vehicle_type'', v_type),
       (''customer_patience'', patience),
       (''pickup_zone'', pickup),
       (''drop_zone'', drop'),
       (''historical_customer_rating_binned'', rating),
       (''hour'', hour),
       (''day'', day),
       (''month'', month),
       (''day_of_month'', dom'),
       (''weather_condition'', weather)]]"

text \<open>Line 194: \<^verbatim>\<open>pipeline.predict_proba(input_data)[0][1]\<close>.\<close>

definition score :: "classifier \<Rightarrow> dataframe \<Rightarrow> py_exc + real" where
  "score pipeline df =
     (case pipeline df of
        Inl e \<Rightarrow> Inl e
      | Inr probs \<Rightarrow>
          (case np_index probs 0 of
             Inl e \<Rightarrow> Inl e
           | Inr first_row \<Rightarrow> np_index first_row 1))"

text \<open>Lines 195 to 207: percentage, threshold, and the five outputs of a prediction.\<close>

definition map_prediction :: "real \<Rightarrow> outputs" where
  "map_prediction prob =
     (let prob_pct = py_round (fl (prob * 100)) 2;
          threshold = 0.5
      in if prob \<ge> threshold
         then (''Cancelled'', ''text-center text-danger font-weight-bold'',
               PyFloat prob_pct, ''danger'', py_str_float prob_pct @ ''% Risk'')
         else (''Not Cancelled'', ''text-center text-success font-weight-bold'',
               PyFloat prob_pct, ''success'', py_str_float prob_pct @ ''% Risk''))"

text \<open>
  Lines 193 to 210: the \<^verbatim>\<open>try\<close> block. An \<^verbatim>\<open>Exception\<close> raised inside it is
  turned into the error outputs; anything else raised goes on to the caller.
\<close>

definition try_predict :: "classifier \<Rightarrow> dataframe \<Rightarrow> py_exc + outputs" where
  "try_predict pipeline df =
     (case score pipeline df of
        Inr prob \<Rightarrow> Inr (map_prediction prob)
      | Inl (Exception e) \<Rightarrow>
          Inr (''Error'', ''text-danger'', PyInt 0, ''danger'', ''Prediction failed: '' @ e)
      | Inl (ExitRequest e) \<Rightarrow> Inl (ExitRequest e))"

text \<open>
  Lines 165 to 210. \<open>pipeline\<close> is the global set at start-up. The result is \<open>Inr\<close> of
  the five outputs when the callback returns and \<open>Inl\<close> of what it lets through.
\<close>

definition predict_cancellation ::
  "classifier option \<Rightarrow> py_val \<Rightarrow>
   py_val \<Rightarrow> py_val \<Rightarrow> py_val \<Rightarrow> py_val \<Rightarrow> py_val \<Rightarrow> py_val \<Rightarrow> py_val \<Rightarrow> py_val \<Rightarrow>
   py_val \<Rightarrow> py_val \<Rightarrow> py_val \<Rightarrow> py_val \<Rightarrow> py_val \<Rightarrow> py_val \<Rightarrow> py_val \<Rightarrow> py_val \<Rightarrow>
   py_exc + outputs" where
  "predict_cancellation pipeline n_clicks v_type weather pickup drop' patience rating
                        arrival dist' cost temp hour hum prec day month dom' =
     (if \<not> py_truthy n_clicks
      then Inr (''Ready'', ''text-center text-muted'', PyInt 0, ''info'', ''Click Predict to start'')
      else case pipeline of
        None \<Rightarrow> Inr (''Error'', ''text-danger'', PyInt 0, ''danger'', ''Model file not found.'')
      | Some model \<Rightarrow>
          try_predict model (input_data v_type weather pickup drop' patience rating
                               arrival dist' cost temp hour hum prec day month dom'))"

section \<open>Properties of the built-ins\<close>

lemma round_half_even_near: "\<bar>of_int (round_half_even y) - y\<bar> \<le> 1 / 2"
  unfolding round_half_even_def Let_def by (auto; linarith)

lemma round_half_even_unique:
  assumes "\<bar>y - of_int k\<bar> < 1 / 2"
  shows "round_half_even y = k"
proof -
  have "\<bar>of_int (round_half_even y) - y\<bar> \<le> 1 / 2"
    by (rule round_half_even_near)
  with assms have "\<bar>(of_int (round_half_even y) :: real) - of_int k\<bar> < 1" by linarith
  then have "\<bar>(of_int (round_half_even y - k) :: real)\<bar> < 1" by simp
  then have "\<bar>round_half_even y - k\<bar> < 1" by linarith
  then show ?thesis by simp
qed

lemma round_half_even_range:
  assumes "0 \<le> y" and "y \<le> of_int m"
  shows "0 \<le> round_half_even y \<and> round_half_even y \<le> m"
proof -
  have near: "\<bar>of_int (round_half_even y) - y\<bar> \<le> 1 / 2"
    by (rule round_half_even_near)
  have "- 1 < (of_int (round_half_even y) :: real)"
    using near assms(1) by linarith
  then have lo: "0 \<le> round_half_even y" by linarith
  have "(of_int (round_half_even y) :: real) < of_int m + 1"
    using near assms(2) by linarith
  then have "(of_int (round_half_even y) :: real) < of_int (m + 1)" by simp
  then have "round_half_even y < m + 1" by (simp only: of_int_less_iff)
  with lo show ?thesis by simp
qed

lemma ilog2_le: "m < 2 ^ Suc n \<Longrightarrow> ilog2 m \<le> n"
proof (induction n arbitrary: m)
  case 0
  then show ?case by (simp add: ilog2.simps)
next
  case (Suc n)
  show ?case
  proof (cases "m < 2")
    case True
    then show ?thesis by (simp add: ilog2.simps)
  next
    case False
    from Suc.prems have "m div 2 < 2 ^ Suc n" by simp
    then have "ilog2 (m div 2) \<le> n" by (rule Suc.IH)
    with False show ?thesis by (simp add: ilog2.simps [of m])
  qed
qed

lemma exponent_less:
  assumes "0 < x" and "x < 2 ^ Suc n"
  shows "exponent x \<le> int n"
proof (cases "1 \<le> x")
  case True
  have "\<lfloor>x\<rfloor> < 2 ^ Suc n"
    using assms(2) by (simp add: floor_less_iff)
  then have "nat \<lfloor>x\<rfloor> < 2 ^ Suc n"
    using True by (simp add: nat_less_iff)
  then have "ilog2 (nat \<lfloor>x\<rfloor>) \<le> n" by (rule ilog2_le)
  with True show ?thesis by (simp add: exponent_def)
next
  case False
  then show ?thesis by (simp add: exponent_def)
qed

lemma pow2_powr: "pow2 e = 2 powr of_int e"
  by (simp add: pow2_def powr_int)

lemma pow2_pos: "0 < pow2 e"
  by (simp add: pow2_powr)

lemma pow2_mono: "e \<le> e' \<Longrightarrow> pow2 e \<le> pow2 e'"
  by (simp add: pow2_powr)

lemma pow2_neg: "pow2 (- int j) = 1 / 2 ^ j"
  by (simp add: pow2_def)

text \<open>The scale \<open>fl\<close> rounds at, for a positive number below \<open>2 ^ Suc n\<close>.\<close>

lemma scale_bounds:
  assumes "0 < x" and "x < 2 ^ Suc n" and "n \<le> 52"
  defines "e \<equiv> max (exponent \<bar>x\<bar> - 52) (- 1074)"
  shows "e \<le> 0" and "pow2 e \<le> 2 ^ n / 2 ^ 52" and "pow2 e = 1 / 2 ^ nat (- e)"
proof -
  have "exponent \<bar>x\<bar> \<le> int n"
    using assms(1,2) by (simp add: exponent_less)
  then have le: "e \<le> int n - 52"
    unfolding e_def using assms(3) by simp
  then show e0: "e \<le> 0" using assms(3) by simp
  have "pow2 e \<le> pow2 (int n - 52)" using le by (rule pow2_mono)
  also have "pow2 (int n - 52) = 2 ^ n / 2 ^ 52"
    by (simp add: pow2_powr powr_diff powr_realpow)
  finally show "pow2 e \<le> 2 ^ n / 2 ^ 52" .
  from e0 show "pow2 e = 1 / 2 ^ nat (- e)"
    by (cases "e = 0") (simp_all add: pow2_def)
qed

lemma fl_error:
  assumes "0 \<le> x" and "x < 2 ^ Suc n" and "n \<le> 52"
  shows "\<bar>fl x - x\<bar> \<le> 2 ^ n / 2 ^ 53"
proof (cases "x = 0")
  case True
  then show ?thesis by (simp add: fl_def)
next
  case False
  define e where "e = max (exponent \<bar>x\<bar> - 52) (- 1074)"
  define s where "s = pow2 e"
  have pos: "0 < x" using assms(1) False by simp
  have s: "0 < s" "s \<le> 2 ^ n / 2 ^ 52"
    unfolding s_def e_def using scale_bounds [OF pos assms(2,3)] by (simp_all add: pow2_pos)
  have flx: "fl x = of_int (round_half_even (x / s)) * s"
    using False by (simp add: fl_def e_def s_def Let_def)
  have "\<bar>of_int (round_half_even (x / s)) - x / s\<bar> \<le> 1 / 2"
    by (rule round_half_even_near)
  then have "\<bar>of_int (round_half_even (x / s)) - x / s\<bar> * s \<le> 1 / 2 * s"
    using s(1) by (simp only: mult_le_cancel_right_pos)
  moreover have "\<bar>of_int (round_half_even (x / s)) - x / s\<bar> * s = \<bar>fl x - x\<bar>"
  proof -
    have "fl x - x = (of_int (round_half_even (x / s)) - x / s) * s"
      using s(1) by (simp add: flx left_diff_distrib)
    then show ?thesis using s(1) by (simp add: abs_mult)
  qed
  ultimately have "\<bar>fl x - x\<bar> \<le> s / 2" by simp
  also have "s / 2 \<le> 2 ^ n / 2 ^ 53" using s(2) by simp
  finally show ?thesis .
qed

lemma fl_range:
  assumes "0 \<le> x" and "x \<le> of_int m" and "of_int m < (2::real) ^ Suc n" and "n \<le> 52"
  shows "0 \<le> fl x \<and> fl x \<le> of_int m"
proof (cases "x = 0")
  case True
  then show ?thesis using assms(2) by (simp add: fl_def)
next
  case False
  define e where "e = max (exponent \<bar>x\<bar> - 52) (- 1074)"
  define j where "j = nat (- e)"
  have pos: "0 < x" using assms(1) False by simp
  have lt: "x < 2 ^ Suc n" using assms(2,3) by linarith
  have s: "pow2 e = 1 / 2 ^ j"
    unfolding e_def j_def using scale_bounds(3) [OF pos lt assms(4)] by simp
  have flx: "fl x = of_int (round_half_even (x * 2 ^ j)) / 2 ^ j"
    using False by (simp add: fl_def e_def [symmetric] s Let_def)
  have "0 \<le> x * 2 ^ j" using assms(1) by simp
  moreover have "x * 2 ^ j \<le> of_int (m * 2 ^ j)" using assms(2) by simp
  ultimately have "0 \<le> round_half_even (x * 2 ^ j) \<and> round_half_even (x * 2 ^ j) \<le> m * 2 ^ j"
    by (rule round_half_even_range)
  then have "0 \<le> (of_int (round_half_even (x * 2 ^ j)) :: real)"
    and "(of_int (round_half_even (x * 2 ^ j)) :: real) \<le> of_int (m * 2 ^ j)"
    by (simp_all only: of_int_0_le_iff of_int_le_iff)
  then show ?thesis
    unfolding flx by (simp add: field_simps)
qed

text \<open>
  The percentage of a probability in \<open>[0, 1]\<close>: the double nearest to a whole number of
  hundredths that is within half a hundredth of \<open>p * 100\<close>, up to the error of the two
  multiplications.
\<close>

lemma percentage_hundredths:
  assumes "0 \<le> p" and "p \<le> 1"
  shows "\<exists>k::nat. k \<le> 10000 \<and> py_round (fl (p * 100)) 2 = fl (real k / 100)
      \<and> \<bar>real k / 100 - p * 100\<bar> \<le> 1 / 200 + 1 / 10 ^ 13"
proof -
  define a where "a = fl (p * 100)"
  define b where "b = fl (a * 10 ^ 2)"
  define r where "r = round_half_even b"
  have p100: "0 \<le> p * 100" "p * 100 \<le> of_int 100" "p * 100 < 2 ^ Suc 6"
    using assms by simp_all
  have a: "0 \<le> a \<and> a \<le> of_int 100"
    unfolding a_def using p100(1,2) by (rule fl_range [where n = 6]) simp_all
  have ea: "\<bar>a - p * 100\<bar> \<le> 2 ^ 6 / 2 ^ 53"
    unfolding a_def using p100(1,3) by (rule fl_error [where n = 6]) simp
  have a100: "0 \<le> a * 10 ^ 2" "a * 10 ^ 2 \<le> of_int 10000" "a * 10 ^ 2 < 2 ^ Suc 13"
    using a by simp_all
  have b: "0 \<le> b \<and> b \<le> of_int 10000"
    unfolding b_def using a100(1,2) by (rule fl_range [where n = 13]) simp_all
  have eb: "\<bar>b - a * 10 ^ 2\<bar> \<le> 2 ^ 13 / 2 ^ 53"
    unfolding b_def using a100(1,3) by (rule fl_error [where n = 13]) simp
  have r: "0 \<le> r \<and> r \<le> 10000"
    unfolding r_def using b by (intro round_half_even_range) simp_all
  have er: "\<bar>of_int r - b\<bar> \<le> 1 / 2"
    unfolding r_def by (rule round_half_even_near)
  have k: "nat r \<le> 10000" "real (nat r) = of_int r" using r by linarith+
  have "py_round (fl (p * 100)) 2 = fl (of_int r / 100)"
    by (simp add: py_round_def rint_def r_def b_def a_def)
  then have val: "py_round (fl (p * 100)) 2 = fl (real (nat r) / 100)"
    by (simp only: k(2))
  have "(2::real) ^ 6 / 2 ^ 53 \<le> 1 / 100000000000000"
    and "(2::real) ^ 13 / 2 ^ 53 \<le> 1 / 1000000000000"
    by simp_all
  with ea eb have "\<bar>a - p * 100\<bar> \<le> 1 / 100000000000000"
    and "\<bar>b - a * 100\<bar> \<le> 1 / 1000000000000"
    by simp_all
  with er have "\<bar>of_int r - p * 10000\<bar> \<le> 1 / 2 + 1 / 100000000000"
    by linarith
  then have "\<bar>(of_int r - p * 10000) / 100\<bar> \<le> (1 / 2 + 1 / 100000000000) / 100"
    by (simp only: abs_divide abs_numeral divide_le_cancel) simp
  moreover have "(of_int r - p * 10000) / 100 = of_int r / 100 - p * 100"
    by (simp add: diff_divide_distrib)
  ultimately have "\<bar>of_int r / 100 - p * 100\<bar> \<le> 1 / 200 + 1 / 10 ^ 13"
    by simp
  then have "\<bar>real (nat r) / 100 - p * 100\<bar> \<le> 1 / 200 + 1 / 10 ^ 13"
    by (simp only: k(2))
  with k(1) val show ?thesis by blast
qed

text \<open>The double nearest to a percentage of hundredths rounds back to it.\<close>

lemma hundredths_of_double:
  assumes "k \<le> 10000"
  shows "round_half_even (fl (real k / 100) * 100) = int k"
proof -
  define d where "d = fl (real k / 100) - real k / 100"
  have "0 \<le> real k / 100" and "real k / 100 < 2 ^ Suc 6"
    using assms by simp_all
  then have "\<bar>d\<bar> \<le> 2 ^ 6 / 2 ^ 53"
    unfolding d_def by (rule fl_error [where n = 6]) simp
  moreover have "(2::real) ^ 6 / 2 ^ 53 \<le> 1 / 1000" by simp
  ultimately have "100 * \<bar>d\<bar> < 1 / 2" by linarith
  then have "\<bar>100 * d\<bar> < 1 / 2" by (simp add: abs_mult)
  moreover have "fl (real k / 100) * 100 - of_int (int k) = 100 * d"
    by (simp add: d_def)
  ultimately have "\<bar>fl (real k / 100) * 100 - of_int (int k)\<bar> < 1 / 2" by simp
  then show ?thesis by (rule round_half_even_unique)
qed

text \<open>Reading a printed number back.\<close>

lemma digit_cases:
  assumes "d < 10"
  shows "d = 0 \<or> d = 1 \<or> d = 2 \<or> d = 3 \<or> d = 4 \<or> d = 5 \<or> d = 6 \<or> d = 7 \<or> d = 8 \<or> d = (9::nat)"
  using assms by arith

lemma digit_val_digit_char: "d < 10 \<Longrightarrow> digit_val (digit_char d) = d"
  using digit_cases [of d] by (auto simp: digit_val_def digit_char_def)

lemma digit_char_not_point: "d < 10 \<Longrightarrow> digit_char d \<noteq> CHR ''.''"
  using digit_cases [of d] by (auto simp: digit_char_def)

lemma read_nat_snoc: "read_nat (s @ [c]) = 10 * read_nat s + digit_val c"
  by (simp add: read_nat_def)

lemma read_nat_str_nat: "read_nat (str_nat n) = n"
proof (induction n rule: str_nat.induct)
  case (1 n)
  show ?case
  proof (cases "n < 10")
    case True
    then show ?thesis
      by (simp add: str_nat.simps [of n] read_nat_def digit_val_digit_char)
  next
    case False
    with "1.IH" have "read_nat (str_nat (n div 10)) = n div 10" by simp
    with False show ?thesis
      by (simp add: str_nat.simps [of n] read_nat_snoc digit_val_digit_char)
  qed
qed

lemma str_nat_no_point: "CHR ''.'' \<notin> set (str_nat n)"
proof (induction n rule: str_nat.induct)
  case (1 n)
  show ?case
  proof (cases "n < 10")
    case True
    then show ?thesis
      using digit_char_not_point [of n] by (auto simp: str_nat.simps [of n])
  next
    case False
    with "1.IH" have "CHR ''.'' \<notin> set (str_nat (n div 10))" by simp
    with False show ?thesis
      using digit_char_not_point [of "n mod 10"] by (auto simp: str_nat.simps [of n])
  qed
qed

lemma read_decimal_parts:
  assumes "CHR ''.'' \<notin> set ip"
  shows "read_decimal (ip @ ''.'' @ fp) = real (read_nat ip) + real (read_nat fp) / 10 ^ length fp"
proof -
  have "takeWhile (\<lambda>c. c \<noteq> CHR ''.'') (ip @ ''.'' @ fp) = ip"
    using assms by (induction ip) auto
  then show ?thesis by (simp add: read_decimal_def)
qed

lemma py_str_float_hundredths:
  assumes "k \<le> 10000"
  shows "py_str_float (fl (real k / 100))
       = str_nat (k div 100) @ ''.'' @ [digit_char (k mod 100 div 10)]
         @ (if k mod 10 = 0 then [] else [digit_char (k mod 10)])"
  using hundredths_of_double [OF assms] by (simp add: py_str_float_def)

lemma read_decimal_py_str_float:
  assumes "k \<le> 10000"
  shows "read_decimal (py_str_float (fl (real k / 100))) = real k / 100"
proof -
  define a where "a = k div 100"
  define d1 where "d1 = k mod 100 div 10"
  define d2 where "d2 = k mod 10"
  have d: "d1 < 10" "d2 < 10" by (simp_all add: d1_def d2_def div_less_iff_less_mult)
  have "k mod 100 mod 10 = k mod 10" by (simp add: mod_mod_cancel)
  then have "k mod 100 = 10 * d1 + d2"
    unfolding d1_def d2_def by (metis mult_div_mod_eq)
  moreover have "k = 100 * a + k mod 100"
    unfolding a_def by simp
  ultimately have k: "k = 100 * a + 10 * d1 + d2" by simp
  have "read_decimal (py_str_float (fl (real k / 100)))
      = read_decimal (str_nat a @ ''.'' @ ([digit_char d1] @ (if d2 = 0 then [] else [digit_char d2])))"
    by (simp add: py_str_float_hundredths [OF assms] a_def d1_def d2_def)
  also have "\<dots> = real a + real (read_nat ([digit_char d1] @ (if d2 = 0 then [] else [digit_char d2])))
      / 10 ^ length ([digit_char d1] @ (if d2 = 0 then [] else [digit_char d2]))"
    by (simp only: read_decimal_parts [OF str_nat_no_point] read_nat_str_nat)
  also have "\<dots> = real a + real d1 / 10 + real d2 / 100"
    using d by (simp add: read_nat_str_nat read_nat_def digit_val_digit_char)
  also have "\<dots> = real k / 100"
    by (simp add: k)
  finally show ?thesis .
qed

section \<open>Paths through the callback\<close>

lemma score_second_class:
  "model df = Inr ((p0 # p1 # cs) # rows) \<Longrightarrow> score model df = Inr p1"
  by (simp add: score_def np_index_def)

lemma predict_cancellation_loaded:
  "py_truthy n_clicks \<Longrightarrow>
   predict_cancellation (Some model) n_clicks v_type weather pickup drop' patience rating
       arrival dist' cost temp hour hum prec day month dom'
   = try_predict model (input_data v_type weather pickup drop' patience rating
       arrival dist' cost temp hour hum prec day month dom')"
  by (simp add: predict_cancellation_def)

lemma try_predict_scored:
  "score model df = Inr p \<Longrightarrow> try_predict model df = Inr (map_prediction p)"
  by (simp add: try_predict_def)

lemma predict_cancellation_scored:
  assumes "py_truthy n_clicks"
    and "model (input_data v_type weather pickup drop' patience rating
       arrival dist' cost temp hour hum prec day month dom') = Inr ((p0 # p # cs) # rows)"
  shows "predict_cancellation (Some model) n_clicks v_type weather pickup drop' patience rating
       arrival dist' cost temp hour hum prec day month dom' = Inr (map_prediction p)"
  using assms
  by (simp add: predict_cancellation_loaded try_predict_scored score_second_class)

text \<open>The equations that evaluate the callback on a concrete input.\<close>

lemmas callback_eval =
  predict_cancellation_def try_predict_def score_def np_index_def map_prediction_def
  input_data_def py_round_def rint_def fl_def exponent_def ilog2.simps clog2_def pow2_def
  round_half_even_def py_str_float_def str_nat.simps digit_char_def Let_def
  prediction_text_def prediction_class_def prob_bar_value_def prob_bar_color_def
  prob_text_def

section \<open>The threshold\<close>

text \<open>
  C1. After a click, with the pipeline loaded and a response whose first row has the
  probability \<open>p\<close> in second place, the callback returns; the outcome text is
  \<^verbatim>\<open>Cancelled\<close> and the bar colour \<^verbatim>\<open>danger\<close> exactly when \<open>p \<ge> 0.5\<close> (the
  boundary included), and otherwise they are \<^verbatim>\<open>Not Cancelled\<close> and \<^verbatim>\<open>success\<close>.
  This holds for every \<open>p\<close>, so for every \<open>p\<close> in \<open>[0, 1]\<close>.
\<close>

theorem threshold_decides_outcome:
  assumes "py_truthy n_clicks"
    and "model (input_data v_type weather pickup drop' patience rating
       arrival dist' cost temp hour hum prec day month dom') = Inr ((p0 # p # cs) # rows)"
  shows "\<exists>out. predict_cancellation (Some model) n_clicks v_type weather pickup drop' patience rating
       arrival dist' cost temp hour hum prec day month dom' = Inr out
      \<and> prediction_text out = (if p \<ge> 0.5 then ''Cancelled'' else ''Not Cancelled'')
      \<and> prob_bar_color out = (if p \<ge> 0.5 then ''danger'' else ''success'')
      \<and> (prediction_text out = ''Cancelled'' \<longleftrightarrow> p \<ge> 0.5)
      \<and> (prob_bar_color out = ''danger'' \<longleftrightarrow> p \<ge> 0.5)"
proof -
  have "predict_cancellation (Some model) n_clicks v_type weather pickup drop' patience rating
       arrival dist' cost temp hour hum prec day month dom' = Inr (map_prediction p)"
    using assms by (rule predict_cancellation_scored)
  moreover have "prediction_text (map_prediction p)
      = (if p \<ge> 0.5 then ''Cancelled'' else ''Not Cancelled'')"
    by (simp add: map_prediction_def prediction_text_def Let_def)
  moreover have "prob_bar_color (map_prediction p)
      = (if p \<ge> 0.5 then ''danger'' else ''success'')"
    by (simp add: map_prediction_def prob_bar_color_def Let_def)
  ultimately show ?thesis by simp
qed

text \<open>At the boundary \<open>p = 0.5\<close> and just below it, \<open>p = 0.49\<close>.\<close>

theorem threshold_decides_outcome_witness:
  "py_truthy (PyInt 1)
   \<and> (\<exists>out. predict_cancellation (Some (\<lambda>df. Inr [[0.5, 0.5]])) (PyInt 1)
       (PyStr ''Auto'') (PyStr ''Clear'') (PyStr ''Gurgaon'') (PyStr ''South Delhi'')
       (PyStr ''patient'') (PyStr ''No Prior Rating'') (PyInt 5) (PyInt 10) (PyInt 300) (PyInt 30)
       (PyInt 18) (PyInt 50) (PyInt 0) (PyStr ''Monday'') (PyInt 6) (PyInt 15) = Inr out
        \<and> prediction_text out = ''Cancelled'' \<and> prob_bar_color out = ''danger'')
   \<and> (\<exists>out. predict_cancellation (Some (\<lambda>df. Inr [[0.51, 0.49]])) (PyInt 1)
       (PyStr ''Auto'') (PyStr ''Clear'') (PyStr ''Gurgaon'') (PyStr ''South Delhi'')
       (PyStr ''patient'') (PyStr ''No Prior Rating'') (PyInt 5) (PyInt 10) (PyInt 300) (PyInt 30)
       (PyInt 18) (PyInt 50) (PyInt 0) (PyStr ''Monday'') (PyInt 6) (PyInt 15) = Inr out
        \<and> prediction_text out = ''Not Cancelled'' \<and> prob_bar_color out = ''success'')"
proof -
  have c: "py_truthy (PyInt 1)" by simp
  have "\<exists>out. predict_cancellation (Some (\<lambda>df. Inr [[0.5, 0.5]])) (PyInt 1)
       (PyStr ''Auto'') (PyStr ''Clear'') (PyStr ''Gurgaon'') (PyStr ''South Delhi'')
       (PyStr ''patient'') (PyStr ''No Prior Rating'') (PyInt 5) (PyInt 10) (PyInt 300) (PyInt 30)
       (PyInt 18) (PyInt 50) (PyInt 0) (PyStr ''Monday'') (PyInt 6) (PyInt 15) = Inr out
        \<and> prediction_text out = ''Cancelled'' \<and> prob_bar_color out = ''danger''"
    using threshold_decides_outcome [of "PyInt 1" "\<lambda>df. Inr [[0.5, 0.5]]"
       "PyStr ''Auto''" "PyStr ''Clear''" "PyStr ''Gurgaon''" "PyStr ''South Delhi''" "PyStr ''patient''" "PyStr ''No Prior Rating''" "PyInt 5" "PyInt 10"
       "PyInt 300" "PyInt 30" "PyInt 18" "PyInt 50" "PyInt 0" "PyStr ''Monday''" "PyInt 6" "PyInt 15" "0.5" "0.5" "[]" "[]"]
    by auto
  moreover
  have "\<exists>out. predict_cancellation (Some (\<lambda>df. Inr [[0.51, 0.49]])) (PyInt 1)
       (PyStr ''Auto'') (PyStr ''Clear'') (PyStr ''Gurgaon'') (PyStr ''South Delhi'')
       (PyStr ''patient'') (PyStr ''No Prior Rating'') (PyInt 5) (PyInt 10) (PyInt 300) (PyInt 30)
       (PyInt 18) (PyInt 50) (PyInt 0) (PyStr ''Monday'') (PyInt 6) (PyInt 15) = Inr out
        \<and> prediction_text out = ''Not Cancelled'' \<and> prob_bar_color out = ''success''"
    using threshold_decides_outcome [of "PyInt 1" "\<lambda>df. Inr [[0.51, 0.49]]"
       "PyStr ''Auto''" "PyStr ''Clear''" "PyStr ''Gurgaon''" "PyStr ''South Delhi''" "PyStr ''patient''" "PyStr ''No Prior Rating''" "PyInt 5" "PyInt 10"
       "PyInt 300" "PyInt 30" "PyInt 18" "PyInt 50" "PyInt 0" "PyStr ''Monday''" "PyInt 6" "PyInt 15" "0.51" "0.49" "[]" "[]"]
    by auto
  ultimately show ?thesis using c by blast
qed

section \<open>The pipeline is missing\<close>

text \<open>
  C2. When start-up ended with no pipeline (\<^verbatim>\<open>pipeline = None\<close>), which happens exactly
  when the model file was absent, every call of the callback with a truthy click count
  returns the text \<^verbatim>\<open>Error\<close>, the colour \<^verbatim>\<open>danger\<close>, the bar value 0 and the message
  \<^verbatim>\<open>Model file not found.\<close>. No classifier takes part in the result.
\<close>

theorem unavailable_model_reports_error:
  assumes "load_pipeline file_exists loaded = Inr None"
    and "py_truthy n_clicks"
  shows "\<not> file_exists
      \<and> predict_cancellation None n_clicks v_type weather pickup drop' patience rating
       arrival dist' cost temp hour hum prec day month dom'
        = Inr (''Error'', ''text-danger'', PyInt 0, ''danger'', ''Model file not found.'')"
proof -
  have "\<not> file_exists"
    using assms(1) by (auto simp: load_pipeline_def split: if_splits sum.splits)
  moreover have "predict_cancellation None n_clicks v_type weather pickup drop' patience rating
       arrival dist' cost temp hour hum prec day month dom'
        = Inr (''Error'', ''text-danger'', PyInt 0, ''danger'', ''Model file not found.'')"
    using assms(2) by (simp add: predict_cancellation_def)
  ultimately show ?thesis by simp
qed

theorem unavailable_model_reports_error_witness:
  "load_pipeline False (Inl (Exception ''not called'')) = Inr None
   \<and> py_truthy (PyInt 3)
   \<and> predict_cancellation None (PyInt 3)
       (PyStr ''Auto'') (PyStr ''Clear'') (PyStr ''Gurgaon'') (PyStr ''South Delhi'')
       (PyStr ''patient'') (PyStr ''No Prior Rating'') (PyInt 5) (PyInt 10) (PyInt 300) (PyInt 30)
       (PyInt 18) (PyInt 50) (PyInt 0) (PyStr ''Monday'') (PyInt 6) (PyInt 15)
     = Inr (''Error'', ''text-danger'', PyInt 0, ''danger'', ''Model file not found.'')"
proof -
  have l: "load_pipeline False (Inl (Exception ''not called'')) = Inr None"
    by (simp add: load_pipeline_def)
  have c: "py_truthy (PyInt 3)" by simp
  show ?thesis
    using l c unavailable_model_reports_error [OF l c, of
       "PyStr ''Auto''" "PyStr ''Clear''" "PyStr ''Gurgaon''" "PyStr ''South Delhi''" "PyStr ''patient''" "PyStr ''No Prior Rating''" "PyInt 5" "PyInt 10"
       "PyInt 300" "PyInt 30" "PyInt 18" "PyInt 50" "PyInt 0" "PyStr ''Monday''" "PyInt 6" "PyInt 15"]
    by simp
qed

section \<open>The percentage\<close>

text \<open>
  C3, as the code has it. After a click, with the pipeline loaded and a response whose
  probability \<open>p\<close> is in \<open>[0, 1]\<close>, there is a whole number \<open>k\<close> of hundredths, at
  most 10000, such that \<open>k / 100\<close> is within half a hundredth of \<open>p * 100\<close>, up to
  \<open>10^-13\<close> for the rounding of the two multiplications; the bar value is the double
  nearest to \<open>k / 100\<close>; and the caption is the decimal \<open>k / 100\<close>, as Python prints it,
  followed by \<^verbatim>\<open>% Risk\<close>. Read back as a number, the caption gives \<open>k / 100\<close>, whose
  double is the bar value: the bar and the caption show the same value.
\<close>

theorem percentage_rounded_in_doubles:
  assumes "py_truthy n_clicks"
    and "model (input_data v_type weather pickup drop' patience rating
       arrival dist' cost temp hour hum prec day month dom') = Inr ((p0 # p # cs) # rows)"
    and "0 \<le> p" and "p \<le> 1"
  shows "\<exists>out k s. predict_cancellation (Some model) n_clicks v_type weather pickup drop' patience rating
       arrival dist' cost temp hour hum prec day month dom' = Inr out
      \<and> k \<le> (10000::nat)
      \<and> \<bar>real k / 100 - p * 100\<bar> \<le> 1 / 200 + 1 / 10 ^ 13
      \<and> prob_bar_value out = PyFloat (fl (real k / 100))
      \<and> prob_text out = s @ ''% Risk''
      \<and> s = str_nat (k div 100) @ ''.'' @ [digit_char (k mod 100 div 10)]
              @ (if k mod 10 = 0 then [] else [digit_char (k mod 10)])
      \<and> read_decimal s = real k / 100"
proof -
  have ret: "predict_cancellation (Some model) n_clicks v_type weather pickup drop' patience rating
       arrival dist' cost temp hour hum prec day month dom' = Inr (map_prediction p)"
    using assms(1,2) by (rule predict_cancellation_scored)
  obtain k :: nat where k: "k \<le> 10000"
    and val: "py_round (fl (p * 100)) 2 = fl (real k / 100)"
    and near: "\<bar>real k / 100 - p * 100\<bar> \<le> 1 / 200 + 1 / 10 ^ 13"
    using percentage_hundredths [OF assms(3,4)] by blast
  define s where "s = py_str_float (fl (real k / 100))"
  have bar: "prob_bar_value (map_prediction p) = PyFloat (fl (real k / 100))"
    by (simp add: map_prediction_def prob_bar_value_def Let_def val)
  have cap: "prob_text (map_prediction p) = s @ ''% Risk''"
    by (simp add: map_prediction_def prob_text_def Let_def val s_def)
  have digits: "s = str_nat (k div 100) @ ''.'' @ [digit_char (k mod 100 div 10)]
              @ (if k mod 10 = 0 then [] else [digit_char (k mod 10)])"
    unfolding s_def using k by (rule py_str_float_hundredths)
  have reads: "read_decimal s = real k / 100"
    unfolding s_def using k by (rule read_decimal_py_str_float)
  from ret k near bar cap digits reads show ?thesis by blast
qed

text \<open>
  The example of the specification: the double of 0.4567 is shown as 45.67, in the bar
  and in the caption.
\<close>

theorem percentage_rounded_in_doubles_witness:
  "py_truthy (PyInt 1) \<and> 0 \<le> fl 0.4567 \<and> fl 0.4567 \<le> 1
   \<and> (\<exists>out. predict_cancellation (Some (\<lambda>df. Inr [[fl 0.5433, fl 0.4567]])) (PyInt 1)
       (PyStr ''Auto'') (PyStr ''Clear'') (PyStr ''Gurgaon'') (PyStr ''South Delhi'')
       (PyStr ''patient'') (PyStr ''No Prior Rating'') (PyInt 5) (PyInt 10) (PyInt 300) (PyInt 30)
       (PyInt 18) (PyInt 50) (PyInt 0) (PyStr ''Monday'') (PyInt 6) (PyInt 15) = Inr out
        \<and> prob_bar_value out = PyFloat (fl 45.67) \<and> prob_text out = ''45.67% Risk'')"
proof -
  have p: "fl 0.4567 = 4113587899640211 / 9007199254740992"
    by (simp add: callback_eval)
  have c: "py_truthy (PyInt 1)" by simp
  have lo: "0 \<le> fl 0.4567" and hi: "fl 0.4567 \<le> 1"
    unfolding p by simp_all
  have "\<exists>out k s. predict_cancellation (Some (\<lambda>df. Inr [[fl 0.5433, fl 0.4567]])) (PyInt 1)
       (PyStr ''Auto'') (PyStr ''Clear'') (PyStr ''Gurgaon'') (PyStr ''South Delhi'')
       (PyStr ''patient'') (PyStr ''No Prior Rating'') (PyInt 5) (PyInt 10) (PyInt 300) (PyInt 30)
       (PyInt 18) (PyInt 50) (PyInt 0) (PyStr ''Monday'') (PyInt 6) (PyInt 15) = Inr out
      \<and> k \<le> (10000::nat)
      \<and> \<bar>real k / 100 - fl 0.4567 * 100\<bar> \<le> 1 / 200 + 1 / 10 ^ 13
      \<and> prob_bar_value out = PyFloat (fl (real k / 100))
      \<and> prob_text out = s @ ''% Risk''
      \<and> s = str_nat (k div 100) @ ''.'' @ [digit_char (k mod 100 div 10)]
              @ (if k mod 10 = 0 then [] else [digit_char (k mod 10)])
      \<and> read_decimal s = real k / 100"
    by (rule percentage_rounded_in_doubles [OF c _ lo hi, of "\<lambda>df. Inr [[fl 0.5433, fl 0.4567]]"
       "PyStr ''Auto''" "PyStr ''Clear''" "PyStr ''Gurgaon''" "PyStr ''South Delhi''" "PyStr ''patient''" "PyStr ''No Prior Rating''" "PyInt 5" "PyInt 10"
       "PyInt 300" "PyInt 30" "PyInt 18" "PyInt 50" "PyInt 0" "PyStr ''Monday''" "PyInt 6" "PyInt 15" "fl 0.5433" "[]" "[]"]) simp
  then obtain out k s where
    ret: "predict_cancellation (Some (\<lambda>df. Inr [[fl 0.5433, fl 0.4567]])) (PyInt 1)
       (PyStr ''Auto'') (PyStr ''Clear'') (PyStr ''Gurgaon'') (PyStr ''South Delhi'')
       (PyStr ''patient'') (PyStr ''No Prior Rating'') (PyInt 5) (PyInt 10) (PyInt 300) (PyInt 30)
       (PyInt 18) (PyInt 50) (PyInt 0) (PyStr ''Monday'') (PyInt 6) (PyInt 15) = Inr out"
    and near: "\<bar>real k / 100 - fl 0.4567 * 100\<bar> \<le> 1 / 200 + 1 / 10 ^ 13"
    and bar: "prob_bar_value out = PyFloat (fl (real k / 100))"
    and cap: "prob_text out = s @ ''% Risk''"
    and digits: "s = str_nat (k div 100) @ ''.'' @ [digit_char (k mod 100 div 10)]
              @ (if k mod 10 = 0 then [] else [digit_char (k mod 10)])"
    by blast
  have "(1::real) / 200 + 1 / 10 ^ 13 \<le> 6 / 1000" by simp
  moreover have "fl 0.4567 * 100 \<le> 4567 / 100" and "45669 / 1000 \<le> fl 0.4567 * 100"
    unfolding p by simp_all
  ultimately have "real k / 100 \<le> 45677 / 1000" and "45663 / 1000 \<le> real k / 100"
    using near by linarith+
  then have "real k < 4568" and "4566 < real k" by simp_all
  then have k: "k = 4567" by linarith
  have "s = ''45.67''"
    unfolding digits k by (simp add: str_nat.simps digit_char_def)
  with cap have "prob_text out = ''45.67% Risk''" by simp
  moreover have "prob_bar_value out = PyFloat (fl 45.67)"
    unfolding bar k by simp
  ultimately show ?thesis using ret c lo hi by blast
qed

text \<open>
  C3 as stated asks for \<open>p * 100\<close> rounded to two decimal places. For the double of
  0.64025, which lies below 0.64025, \<open>p * 100\<close> is below the tie 64.025 and rounds to
  64.02; its product with 100 in doubles is above the tie, and the callback shows 64.03,
  more than half a hundredth away from \<open>p * 100\<close>.
\<close>

theorem percentage_off_by_a_hundredth:
  "0 \<le> fl 0.64025 \<and> fl 0.64025 \<le> 1
   \<and> predict_cancellation (Some (\<lambda>df. Inr [[fl 0.35975, fl 0.64025]])) (PyInt 1)
       (PyStr ''Auto'') (PyStr ''Clear'') (PyStr ''Gurgaon'') (PyStr ''South Delhi'')
       (PyStr ''patient'') (PyStr ''No Prior Rating'') (PyInt 5) (PyInt 10) (PyInt 300) (PyInt 30)
       (PyInt 18) (PyInt 50) (PyInt 0) (PyStr ''Monday'') (PyInt 6) (PyInt 15)
     = Inr (''Cancelled'', ''text-center text-danger font-weight-bold'', PyFloat (fl 64.03),
            ''danger'', ''64.03% Risk'')
   \<and> fl 0.64025 * 100 < 64.025
   \<and> \<bar>64.02 - fl 0.64025 * 100\<bar> < 1 / 200
   \<and> 1 / 200 < \<bar>64.03 - fl 0.64025 * 100\<bar>
   \<and> 1 / 200 < \<bar>fl 64.03 - fl 0.64025 * 100\<bar>"
  by (simp add: callback_eval)

section \<open>Faults of the scoring call\<close>

text \<open>
  C4. After a click, with the pipeline loaded, when the scoring expression
  \<^verbatim>\<open>pipeline.predict_proba(input_data)[0][1]\<close> raises an \<^verbatim>\<open>Exception\<close> whose text is
  \<open>msg\<close> (raised by \<^verbatim>\<open>predict_proba\<close> or by the indexing of its result), the callback
  returns, with the text \<^verbatim>\<open>Error\<close>, the colour \<^verbatim>\<open>danger\<close>, the bar value 0 and the
  message \<^verbatim>\<open>Prediction failed: \<close> followed by \<open>msg\<close>. Nothing is raised to the caller,
  and the callback keeps no state, so the next call is served as any other.
\<close>

theorem scoring_fault_reported:
  assumes "py_truthy n_clicks"
    and "score model (input_data v_type weather pickup drop' patience rating
       arrival dist' cost temp hour hum prec day month dom') = Inl (Exception msg)"
  shows "predict_cancellation (Some model) n_clicks v_type weather pickup drop' patience rating
       arrival dist' cost temp hour hum prec day month dom'
      = Inr (''Error'', ''text-danger'', PyInt 0, ''danger'', ''Prediction failed: '' @ msg)"
  using assms by (simp add: predict_cancellation_def try_predict_def)

text \<open>A classifier that rejects the frame, and one that returns a single column.\<close>

theorem scoring_fault_reported_witness:
  "py_truthy (PyInt 1)
   \<and> predict_cancellation (Some (\<lambda>df. Inl (Exception ''columns are missing''))) (PyInt 1)
       (PyStr ''Auto'') (PyStr ''Clear'') (PyStr ''Gurgaon'') (PyStr ''South Delhi'')
       (PyStr ''patient'') (PyStr ''No Prior Rating'') (PyInt 5) (PyInt 10) (PyInt 300) (PyInt 30)
       (PyInt 18) (PyInt 50) (PyInt 0) (PyStr ''Monday'') (PyInt 6) (PyInt 15)
     = Inr (''Error'', ''text-danger'', PyInt 0, ''danger'',
            ''Prediction failed: columns are missing'')
   \<and> predict_cancellation (Some (\<lambda>df. Inr [[0.9]])) (PyInt 1)
       (PyStr ''Auto'') (PyStr ''Clear'') (PyStr ''Gurgaon'') (PyStr ''South Delhi'')
       (PyStr ''patient'') (PyStr ''No Prior Rating'') (PyInt 5) (PyInt 10) (PyInt 300) (PyInt 30)
       (PyInt 18) (PyInt 50) (PyInt 0) (PyStr ''Monday'') (PyInt 6) (PyInt 15)
     = Inr (''Error'', ''text-danger'', PyInt 0, ''danger'',
            ''Prediction failed: index 1 is out of bounds for axis 0 with size 1'')"
proof -
  have c: "py_truthy (PyInt 1)" by simp
  have "predict_cancellation (Some (\<lambda>df. Inl (Exception ''columns are missing''))) (PyInt 1)
       (PyStr ''Auto'') (PyStr ''Clear'') (PyStr ''Gurgaon'') (PyStr ''South Delhi'')
       (PyStr ''patient'') (PyStr ''No Prior Rating'') (PyInt 5) (PyInt 10) (PyInt 300) (PyInt 30)
       (PyInt 18) (PyInt 50) (PyInt 0) (PyStr ''Monday'') (PyInt 6) (PyInt 15)
     = Inr (''Error'', ''text-danger'', PyInt 0, ''danger'',
            ''Prediction failed: '' @ ''columns are missing'')"
    by (rule scoring_fault_reported [OF c]) (simp add: score_def)
  moreover
  have "predict_cancellation (Some (\<lambda>df. Inr [[0.9]])) (PyInt 1)
       (PyStr ''Auto'') (PyStr ''Clear'') (PyStr ''Gurgaon'') (PyStr ''South Delhi'')
       (PyStr ''patient'') (PyStr ''No Prior Rating'') (PyInt 5) (PyInt 10) (PyInt 300) (PyInt 30)
       (PyInt 18) (PyInt 50) (PyInt 0) (PyStr ''Monday'') (PyInt 6) (PyInt 15)
     = Inr (''Error'', ''text-danger'', PyInt 0, ''danger'',
            ''Prediction failed: '' @ ''index 1 is out of bounds for axis 0 with size 1'')"
    by (rule scoring_fault_reported [OF c])
       (simp add: score_def np_index_def str_nat.simps digit_char_def)
  ultimately show ?thesis using c by simp
qed

text \<open>
  What is raised outside class \<^verbatim>\<open>Exception\<close> is not an error and is not handled by
  \<^verbatim>\<open>except Exception\<close>: it leaves the callback.
\<close>

lemma exit_request_leaves_callback:
  assumes "py_truthy n_clicks"
    and "score model (input_data v_type weather pickup drop' patience rating
       arrival dist' cost temp hour hum prec day month dom') = Inl (ExitRequest msg)"
  shows "predict_cancellation (Some model) n_clicks v_type weather pickup drop' patience rating
       arrival dist' cost temp hour hum prec day month dom' = Inl (ExitRequest msg)"
  using assms by (simp add: predict_cancellation_def try_predict_def)

section \<open>Before the first click\<close>

text \<open>
  C5. Called with a falsy click count (\<^verbatim>\<open>None\<close> or 0: no click yet), the callback
  returns the text \<^verbatim>\<open>Ready\<close>, the bar value 0 and the bar colour \<^verbatim>\<open>info\<close>, whatever
  the pipeline and the widget values are.
\<close>

theorem idle_outputs:
  assumes "\<not> py_truthy n_clicks"
  shows "predict_cancellation pipeline n_clicks v_type weather pickup drop' patience rating
       arrival dist' cost temp hour hum prec day month dom'
      = Inr (''Ready'', ''text-center text-muted'', PyInt 0, ''info'', ''Click Predict to start'')"
  using assms by (simp add: predict_cancellation_def)

theorem idle_outputs_witness:
  "\<not> py_truthy PyNone \<and> \<not> py_truthy (PyInt 0)
   \<and> predict_cancellation (Some (\<lambda>df. Inr [[0.27, 0.73]])) PyNone
       (PyStr ''Auto'') (PyStr ''Clear'') (PyStr ''Gurgaon'') (PyStr ''South Delhi'')
       (PyStr ''patient'') (PyStr ''No Prior Rating'') (PyInt 5) (PyInt 10) (PyInt 300) (PyInt 30)
       (PyInt 18) (PyInt 50) (PyInt 0) (PyStr ''Monday'') (PyInt 6) (PyInt 15)
     = Inr (''Ready'', ''text-center text-muted'', PyInt 0, ''info'', ''Click Predict to start'')
   \<and> predict_cancellation (Some (\<lambda>df. Inr [[0.27, 0.73]])) (PyInt 0)
       (PyStr ''Auto'') (PyStr ''Clear'') (PyStr ''Gurgaon'') (PyStr ''South Delhi'')
       (PyStr ''patient'') (PyStr ''No Prior Rating'') (PyInt 5) (PyInt 10) (PyInt 300) (PyInt 30)
       (PyInt 18) (PyInt 50) (PyInt 0) (PyStr ''Monday'') (PyInt 6) (PyInt 15)
     = Inr (''Ready'', ''text-center text-muted'', PyInt 0, ''info'', ''Click Predict to start'')"
proof -
  have a: "\<not> py_truthy PyNone" and b: "\<not> py_truthy (PyInt 0)" by simp_all
  show ?thesis
    using a b idle_outputs [OF a] idle_outputs [OF b] by simp
qed

text \<open>
  C10. With no pipeline, the callback returns the \<^verbatim>\<open>Ready\<close> outputs when the click count
  is falsy and the \<^verbatim>\<open>Model file not found.\<close> outputs when it is truthy: the click test
  comes first. Whatever the pipeline, the message \<^verbatim>\<open>Model file not found.\<close> is returned
  only for a truthy click count.
\<close>

theorem idle_check_precedes_model_check:
  "predict_cancellation None n_clicks v_type weather pickup drop' patience rating
       arrival dist' cost temp hour hum prec day month dom'
     = (if py_truthy n_clicks
        then Inr (''Error'', ''text-danger'', PyInt 0, ''danger'', ''Model file not found.'')
        else Inr (''Ready'', ''text-center text-muted'', PyInt 0, ''info'', ''Click Predict to start''))
   \<and> (\<forall>out. predict_cancellation pipeline n_clicks v_type weather pickup drop' patience rating
       arrival dist' cost temp hour hum prec day month dom' = Inr out
          \<and> prob_text out = ''Model file not found.'' \<longrightarrow> py_truthy n_clicks)"
proof (cases "py_truthy n_clicks")
  case True
  then show ?thesis by (simp add: predict_cancellation_def)
next
  case False
  then show ?thesis by (simp add: predict_cancellation_def prob_text_def)
qed

theorem idle_check_precedes_model_check_witness:
  "predict_cancellation None PyNone
       (PyStr ''Auto'') (PyStr ''Clear'') (PyStr ''Gurgaon'') (PyStr ''South Delhi'')
       (PyStr ''patient'') (PyStr ''No Prior Rating'') (PyInt 5) (PyInt 10) (PyInt 300) (PyInt 30)
       (PyInt 18) (PyInt 50) (PyInt 0) (PyStr ''Monday'') (PyInt 6) (PyInt 15)
     = Inr (''Ready'', ''text-center text-muted'', PyInt 0, ''info'', ''Click Predict to start'')
   \<and> predict_cancellation None (PyInt 1)
       (PyStr ''Auto'') (PyStr ''Clear'') (PyStr ''Gurgaon'') (PyStr ''South Delhi'')
       (PyStr ''patient'') (PyStr ''No Prior Rating'') (PyInt 5) (PyInt 10) (PyInt 300) (PyInt 30)
       (PyInt 18) (PyInt 50) (PyInt 0) (PyStr ''Monday'') (PyInt 6) (PyInt 15)
     = Inr (''Error'', ''text-danger'', PyInt 0, ''danger'', ''Model file not found.'')
   \<and> prob_text (''Error'', ''text-danger'', PyInt 0, ''danger'', ''Model file not found.'')
     = ''Model file not found.''
   \<and> py_truthy (PyInt 1)"
proof -
  have idle: "predict_cancellation None PyNone
       (PyStr ''Auto'') (PyStr ''Clear'') (PyStr ''Gurgaon'') (PyStr ''South Delhi'')
       (PyStr ''patient'') (PyStr ''No Prior Rating'') (PyInt 5) (PyInt 10) (PyInt 300) (PyInt 30)
       (PyInt 18) (PyInt 50) (PyInt 0) (PyStr ''Monday'') (PyInt 6) (PyInt 15)
     = Inr (''Ready'', ''text-center text-muted'', PyInt 0, ''info'', ''Click Predict to start'')"
    using idle_check_precedes_model_check [of PyNone
       "PyStr ''Auto''" "PyStr ''Clear''" "PyStr ''Gurgaon''" "PyStr ''South Delhi''" "PyStr ''patient''" "PyStr ''No Prior Rating''" "PyInt 5" "PyInt 10"
       "PyInt 300" "PyInt 30" "PyInt 18" "PyInt 50" "PyInt 0" "PyStr ''Monday''" "PyInt 6" "PyInt 15" None]
    by simp
  have shown: "predict_cancellation None (PyInt 1)
       (PyStr ''Auto'') (PyStr ''Clear'') (PyStr ''Gurgaon'') (PyStr ''South Delhi'')
       (PyStr ''patient'') (PyStr ''No Prior Rating'') (PyInt 5) (PyInt 10) (PyInt 300) (PyInt 30)
       (PyInt 18) (PyInt 50) (PyInt 0) (PyStr ''Monday'') (PyInt 6) (PyInt 15)
     = Inr (''Error'', ''text-danger'', PyInt 0, ''danger'', ''Model file not found.'')"
    by (simp add: predict_cancellation_def)
  have msg: "prob_text (''Error'', ''text-danger'', PyInt 0, ''danger'', ''Model file not found.'')
     = ''Model file not found.''"
    by (simp add: prob_text_def)
  have "py_truthy (PyInt 1)"
    using idle_check_precedes_model_check [of "PyInt 1"
       "PyStr ''Auto''" "PyStr ''Clear''" "PyStr ''Gurgaon''" "PyStr ''South Delhi''" "PyStr ''patient''" "PyStr ''No Prior Rating''" "PyInt 5" "PyInt 10"
       "PyInt 300" "PyInt 30" "PyInt 18" "PyInt 50" "PyInt 0" "PyStr ''Monday''" "PyInt 6" "PyInt 15" None] shown msg
    by blast
  with idle shown msg show ?thesis by simp
qed

section \<open>The record submitted to the classifier\<close>

text \<open>
  C6, as the code has it. After a click, with the pipeline loaded, the callback returns
  what the \<^verbatim>\<open>try\<close> block makes of a frame of one row; the row has exactly the sixteen
  field names of the schema, each once and in the order of the source, and each field
  holds the widget value of its own control. The callback does not look at the values:
  a field is \<^verbatim>\<open>None\<close> exactly when its widget value is \<^verbatim>\<open>None\<close>, and the row holds a
  \<^verbatim>\<open>None\<close> exactly when one of the widget values is \<^verbatim>\<open>None\<close>.
\<close>

theorem record_has_sixteen_fields:
  assumes "py_truthy n_clicks"
  shows "\<exists>r. input_data v_type weather pickup drop' patience rating
       arrival dist' cost temp hour hum prec day month dom' = [r]
      \<and> predict_cancellation (Some model) n_clicks v_type weather pickup drop' patience rating
       arrival dist' cost temp hour hum prec day month dom' = try_predict model [r]
      \<and> map fst r =
          [''vehicle_arrival_time'', ''distance'', ''ride_cost'',
           ''temperature'', ''humidity'', ''precipitation_mm'',
           ''vehicle_type'', ''customer_patience'', ''pickup_zone'',
           ''drop_zone'', ''historical_customer_rating_binned'', ''hour'',
           ''day'', ''month'', ''day_of_month'',
           ''weather_condition'']
      \<and> distinct (map fst r) \<and> length r = 16
      \<and> (PyNone \<in> snd ` set r \<longleftrightarrow>
          PyNone \<in> {v_type, weather, pickup, drop', patience, rating, arrival, dist',
           cost, temp, hour, hum, prec, day, month, dom'})
      \<and> map_of r ''vehicle_arrival_time'' = Some arrival
      \<and> map_of r ''distance'' = Some dist'
      \<and> map_of r ''ride_cost'' = Some cost
      \<and> map_of r ''temperature'' = Some temp
      \<and> map_of r ''humidity'' = Some hum
      \<and> map_of r ''precipitation_mm'' = Some prec
      \<and> map_of r ''vehicle_type'' = Some v_type
      \<and> map_of r ''customer_patience'' = Some patience
      \<and> map_of r ''pickup_zone'' = Some pickup
      \<and> map_of r ''drop_zone'' = Some drop'
      \<and> map_of r ''historical_customer_rating_binned'' = Some rating
      \<and> map_of r ''hour'' = Some hour
      \<and> map_of r ''day'' = Some day
      \<and> map_of r ''month'' = Some month
      \<and> map_of r ''day_of_month'' = Some dom'
      \<and> map_of r ''weather_condition'' = Some weather"
proof -
  have "predict_cancellation (Some model) n_clicks v_type weather pickup drop' patience rating
       arrival dist' cost temp hour hum prec day month dom'
      = try_predict model (input_data v_type weather pickup drop' patience rating
       arrival dist' cost temp hour hum prec day month dom')"
    using assms by (rule predict_cancellation_loaded)
  then show ?thesis
    unfolding input_data_def by auto
qed

theorem record_has_sixteen_fields_witness:
  "py_truthy (PyInt 1)
   \<and> (\<exists>r. input_data (PyStr ''Auto'') (PyStr ''Clear'') (PyStr ''Gurgaon'') (PyStr ''South Delhi'')
       (PyStr ''patient'') (PyStr ''No Prior Rating'') (PyInt 5) (PyInt 10) (PyInt 300) (PyInt 30)
       (PyInt 18) (PyInt 50) (PyInt 0) (PyStr ''Monday'') (PyInt 6) (PyInt 15) = [r]
      \<and> predict_cancellation (Some (\<lambda>df. Inr [[0.27, 0.73]])) (PyInt 1)
       (PyStr ''Auto'') (PyStr ''Clear'') (PyStr ''Gurgaon'') (PyStr ''South Delhi'')
       (PyStr ''patient'') (PyStr ''No Prior Rating'') (PyInt 5) (PyInt 10) (PyInt 300) (PyInt 30)
       (PyInt 18) (PyInt 50) (PyInt 0) (PyStr ''Monday'') (PyInt 6) (PyInt 15) = try_predict (\<lambda>df. Inr [[0.27, 0.73]]) [r]
      \<and> map fst r =
          [''vehicle_arrival_time'', ''distance'', ''ride_cost'',
           ''temperature'', ''humidity'', ''precipitation_mm'',
           ''vehicle_type'', ''customer_patience'', ''pickup_zone'',
           ''drop_zone'', ''historical_customer_rating_binned'', ''hour'',
           ''day'', ''month'', ''day_of_month'',
           ''weather_condition'']
      \<and> distinct (map fst r) \<and> length r = 16
      \<and> PyNone \<notin> snd ` set r
      \<and> map_of r ''vehicle_arrival_time'' = Some (PyInt 5)
      \<and> map_of r ''distance'' = Some (PyInt 10)
      \<and> map_of r ''ride_cost'' = Some (PyInt 300)
      \<and> map_of r ''temperature'' = Some (PyInt 30)
      \<and> map_of r ''humidity'' = Some (PyInt 50)
      \<and> map_of r ''precipitation_mm'' = Some (PyInt 0)
      \<and> map_of r ''vehicle_type'' = Some (PyStr ''Auto'')
      \<and> map_of r ''customer_patience'' = Some (PyStr ''patient'')
      \<and> map_of r ''pickup_zone'' = Some (PyStr ''Gurgaon'')
      \<and> map_of r ''drop_zone'' = Some (PyStr ''South Delhi'')
      \<and> map_of r ''historical_customer_rating_binned'' = Some (PyStr ''No Prior Rating'')
      \<and> map_of r ''hour'' = Some (PyInt 18)
      \<and> map_of r ''day'' = Some (PyStr ''Monday'')
      \<and> map_of r ''month'' = Some (PyInt 6)
      \<and> map_of r ''day_of_month'' = Some (PyInt 15)
      \<and> map_of r ''weather_condition'' = Some (PyStr ''Clear''))"
proof -
  have c: "py_truthy (PyInt 1)" by simp
  show ?thesis
    using c record_has_sixteen_fields [OF c, of
       "PyStr ''Auto''" "PyStr ''Clear''" "PyStr ''Gurgaon''" "PyStr ''South Delhi''" "PyStr ''patient''" "PyStr ''No Prior Rating''" "PyInt 5" "PyInt 10"
       "PyInt 300" "PyInt 30" "PyInt 18" "PyInt 50" "PyInt 0" "PyStr ''Monday''" "PyInt 6" "PyInt 15" "\<lambda>df. Inr [[0.27, 0.73]]"]
    by simp
qed

text \<open>
  C6 asks for a non-null value in every field of every record submitted; the callback
  does not ensure it. A cleared vehicle dropdown sends \<^verbatim>\<open>None\<close>; with one click the
  frame has \<^verbatim>\<open>None\<close> under \<^verbatim>\<open>vehicle_type\<close>, and a classifier that gives
  probabilities only for such a frame is called and its answer displayed.
\<close>

theorem null_field_reaches_classifier:
  "map_of (hd (input_data PyNone (PyStr ''Clear'') (PyStr ''Gurgaon'') (PyStr ''South Delhi'')
       (PyStr ''patient'') (PyStr ''No Prior Rating'') (PyInt 5) (PyInt 10) (PyInt 300) (PyInt 30)
       (PyInt 18) (PyInt 50) (PyInt 0) (PyStr ''Monday'') (PyInt 6) (PyInt 15))) ''vehicle_type'' = Some PyNone
   \<and> predict_cancellation
       (Some (\<lambda>df. if map_of (hd df) ''vehicle_type'' = Some PyNone then Inr [[0.27, 0.73]]
                   else Inl (Exception ''no null in the record'')))
       (PyInt 1) PyNone (PyStr ''Clear'') (PyStr ''Gurgaon'') (PyStr ''South Delhi'')
       (PyStr ''patient'') (PyStr ''No Prior Rating'') (PyInt 5) (PyInt 10) (PyInt 300) (PyInt 30)
       (PyInt 18) (PyInt 50) (PyInt 0) (PyStr ''Monday'') (PyInt 6) (PyInt 15)
     = Inr (''Cancelled'', ''text-center text-danger font-weight-bold'', PyFloat 73, ''danger'',
          ''73.0% Risk'')"
  by (simp add: callback_eval)

text \<open>
  C9. After a click, with the pipeline loaded, the callback returns what the \<^verbatim>\<open>try\<close>
  block makes of the one-row frame in which every field holds the widget value it was
  called with, whatever that value is: nothing is rejected, clamped or converted.
\<close>

theorem widget_values_passed_unchanged:
  assumes "py_truthy n_clicks"
  shows "\<exists>r. input_data v_type weather pickup drop' patience rating
       arrival dist' cost temp hour hum prec day month dom' = [r]
      \<and> predict_cancellation (Some model) n_clicks v_type weather pickup drop' patience rating
       arrival dist' cost temp hour hum prec day month dom' = try_predict model [r]
      \<and> map_of r ''vehicle_arrival_time'' = Some arrival
      \<and> map_of r ''distance'' = Some dist'
      \<and> map_of r ''ride_cost'' = Some cost
      \<and> map_of r ''temperature'' = Some temp
      \<and> map_of r ''humidity'' = Some hum
      \<and> map_of r ''precipitation_mm'' = Some prec
      \<and> map_of r ''vehicle_type'' = Some v_type
      \<and> map_of r ''customer_patience'' = Some patience
      \<and> map_of r ''pickup_zone'' = Some pickup
      \<and> map_of r ''drop_zone'' = Some drop'
      \<and> map_of r ''historical_customer_rating_binned'' = Some rating
      \<and> map_of r ''hour'' = Some hour
      \<and> map_of r ''day'' = Some day
      \<and> map_of r ''month'' = Some month
      \<and> map_of r ''day_of_month'' = Some dom'
      \<and> map_of r ''weather_condition'' = Some weather"
proof -
  have "predict_cancellation (Some model) n_clicks v_type weather pickup drop' patience rating
       arrival dist' cost temp hour hum prec day month dom'
      = try_predict model (input_data v_type weather pickup drop' patience rating
       arrival dist' cost temp hour hum prec day month dom')"
    using assms by (rule predict_cancellation_loaded)
  then show ?thesis
    unfolding input_data_def by simp
qed

text \<open>Humidity 250, precipitation -3, month 13 and day 99 go through as they are.\<close>

theorem widget_values_passed_unchanged_witness:
  "py_truthy (PyInt 1)
   \<and> (\<exists>r. input_data (PyStr ''Auto'') (PyStr ''Clear'') (PyStr ''Gurgaon'') (PyStr ''South Delhi'')
       (PyStr ''patient'') (PyStr ''No Prior Rating'') (PyInt 5) (PyInt 10) (PyInt 300) (PyInt 30)
       (PyInt 18) (PyInt 250) (PyInt (- 3)) (PyStr ''Monday'') (PyInt 13) (PyInt 99) = [r]
      \<and> predict_cancellation (Some (\<lambda>df. Inr [[0.27, 0.73]])) (PyInt 1)
       (PyStr ''Auto'') (PyStr ''Clear'') (PyStr ''Gurgaon'') (PyStr ''South Delhi'')
       (PyStr ''patient'') (PyStr ''No Prior Rating'') (PyInt 5) (PyInt 10) (PyInt 300) (PyInt 30)
       (PyInt 18) (PyInt 250) (PyInt (- 3)) (PyStr ''Monday'') (PyInt 13) (PyInt 99) = try_predict (\<lambda>df. Inr [[0.27, 0.73]]) [r]
      \<and> map_of r ''vehicle_arrival_time'' = Some (PyInt 5)
      \<and> map_of r ''distance'' = Some (PyInt 10)
      \<and> map_of r ''ride_cost'' = Some (PyInt 300)
      \<and> map_of r ''temperature'' = Some (PyInt 30)
      \<and> map_of r ''humidity'' = Some (PyInt 250)
      \<and> map_of r ''precipitation_mm'' = Some (PyInt (- 3))
      \<and> map_of r ''vehicle_type'' = Some (PyStr ''Auto'')
      \<and> map_of r ''customer_patience'' = Some (PyStr ''patient'')
      \<and> map_of r ''pickup_zone'' = Some (PyStr ''Gurgaon'')
      \<and> map_of r ''drop_zone'' = Some (PyStr ''South Delhi'')
      \<and> map_of r ''historical_customer_rating_binned'' = Some (PyStr ''No Prior Rating'')
      \<and> map_of r ''hour'' = Some (PyInt 18)
      \<and> map_of r ''day'' = Some (PyStr ''Monday'')
      \<and> map_of r ''month'' = Some (PyInt 13)
      \<and> map_of r ''day_of_month'' = Some (PyInt 99)
      \<and> map_of r ''weather_condition'' = Some (PyStr ''Clear''))"
proof -
  have c: "py_truthy (PyInt 1)" by simp
  show ?thesis
    using c widget_values_passed_unchanged [OF c, of
       "PyStr ''Auto''" "PyStr ''Clear''" "PyStr ''Gurgaon''" "PyStr ''South Delhi''" "PyStr ''patient''" "PyStr ''No Prior Rating''" "PyInt 5" "PyInt 10"
       "PyInt 300" "PyInt 30" "PyInt 18" "PyInt 250" "PyInt (- 3)" "PyStr ''Monday''" "PyInt 13" "PyInt 99" "\<lambda>df. Inr [[0.27, 0.73]]"]
    by simp
qed

section \<open>Which probability is read\<close>

text \<open>
  C7. After a click, with the pipeline loaded, when the classifier answers the one-row
  frame with one row of two class probabilities \<open>[[p0, p1]]\<close>, the scoring expression
  gives \<open>p1\<close>, the second one, and the outputs are those of \<open>p1\<close>.
\<close>

theorem second_class_probability_consumed:
  assumes "py_truthy n_clicks"
    and "model (input_data v_type weather pickup drop' patience rating
       arrival dist' cost temp hour hum prec day month dom') = Inr [[p0, p1]]"
  shows "score model (input_data v_type weather pickup drop' patience rating
       arrival dist' cost temp hour hum prec day month dom') = Inr p1
      \<and> predict_cancellation (Some model) n_clicks v_type weather pickup drop' patience rating
       arrival dist' cost temp hour hum prec day month dom' = Inr (map_prediction p1)"
  using assms
  by (simp add: predict_cancellation_scored score_second_class)

text \<open>
  The scenario of the specification: the answer \<open>[[0.27, 0.73]]\<close> is shown as
  \<^verbatim>\<open>Cancelled\<close> at 73.0; read from the first column it would be \<^verbatim>\<open>Not Cancelled\<close>.
\<close>

theorem second_class_probability_consumed_witness:
  "py_truthy (PyInt 1)
   \<and> score (\<lambda>df. Inr [[0.27, 0.73]]) (input_data (PyStr ''Auto'') (PyStr ''Clear'') (PyStr ''Gurgaon'') (PyStr ''South Delhi'')
       (PyStr ''patient'') (PyStr ''No Prior Rating'') (PyInt 5) (PyInt 10) (PyInt 300) (PyInt 30)
       (PyInt 18) (PyInt 50) (PyInt 0) (PyStr ''Monday'') (PyInt 6) (PyInt 15)) = Inr 0.73
   \<and> predict_cancellation (Some (\<lambda>df. Inr [[0.27, 0.73]])) (PyInt 1)
       (PyStr ''Auto'') (PyStr ''Clear'') (PyStr ''Gurgaon'') (PyStr ''South Delhi'')
       (PyStr ''patient'') (PyStr ''No Prior Rating'') (PyInt 5) (PyInt 10) (PyInt 300) (PyInt 30)
       (PyInt 18) (PyInt 50) (PyInt 0) (PyStr ''Monday'') (PyInt 6) (PyInt 15)
     = Inr (''Cancelled'', ''text-center text-danger font-weight-bold'', PyFloat 73, ''danger'',
          ''73.0% Risk'')
   \<and> prediction_text (map_prediction 0.27) = ''Not Cancelled''"
proof -
  have c: "py_truthy (PyInt 1)" by simp
  have m: "map_prediction 0.73 = (''Cancelled'', ''text-center text-danger font-weight-bold'', PyFloat 73, ''danger'',
          ''73.0% Risk'')"
    "prediction_text (map_prediction 0.27) = ''Not Cancelled''"
    by (simp_all add: callback_eval)
  have "score (\<lambda>df. Inr [[0.27, 0.73]]) (input_data (PyStr ''Auto'') (PyStr ''Clear'') (PyStr ''Gurgaon'') (PyStr ''South Delhi'')
       (PyStr ''patient'') (PyStr ''No Prior Rating'') (PyInt 5) (PyInt 10) (PyInt 300) (PyInt 30)
       (PyInt 18) (PyInt 50) (PyInt 0) (PyStr ''Monday'') (PyInt 6) (PyInt 15)) = Inr 0.73
   \<and> predict_cancellation (Some (\<lambda>df. Inr [[0.27, 0.73]])) (PyInt 1)
       (PyStr ''Auto'') (PyStr ''Clear'') (PyStr ''Gurgaon'') (PyStr ''South Delhi'')
       (PyStr ''patient'') (PyStr ''No Prior Rating'') (PyInt 5) (PyInt 10) (PyInt 300) (PyInt 30)
       (PyInt 18) (PyInt 50) (PyInt 0) (PyStr ''Monday'') (PyInt 6) (PyInt 15)
     = Inr (map_prediction 0.73)"
    using second_class_probability_consumed [of "PyInt 1" "\<lambda>df. Inr [[0.27, 0.73]]"
       "PyStr ''Auto''" "PyStr ''Clear''" "PyStr ''Gurgaon''" "PyStr ''South Delhi''" "PyStr ''patient''" "PyStr ''No Prior Rating''" "PyInt 5" "PyInt 10"
       "PyInt 300" "PyInt 30" "PyInt 18" "PyInt 50" "PyInt 0" "PyStr ''Monday''" "PyInt 6" "PyInt 15" "0.27" "0.73"]
    by simp
  then show ?thesis using c by (simp only: m simp_thms)
qed

end
